theory Spec2Isabelle
  imports Complex_Main "HOL-Library.AList"
begin

section \<open>Values shared by the handlers\<close>

text \<open>
  The legacy dashboard script keeps all of its state in variables of one closure and
  mutates them from event handlers that run one at a time on the browser's event loop.
  Each handler is modelled as a function from the state before to the state after.
  JavaScript numbers are IEEE doubles; the finite ones are modelled as reals, and the
  three values that are not finite are constructors of their own, because the code
  tests numbers for truthiness and serialises them as JSON.
\<close>

datatype jsnum = NaN | PosInf | NegInf | Fin real

text \<open>Truthiness of a number: everything but \<open>NaN\<close> and zero.\<close>

fun truthy_num :: "jsnum \<Rightarrow> bool" where
  "truthy_num NaN = False"
| "truthy_num PosInf = True"
| "truthy_num NegInf = True"
| "truthy_num (Fin r) = (r \<noteq> 0)"

text \<open>
  A number or \<open>null\<close> as it stands in a request body: \<open>JSON.stringify\<close> writes a
  finite number as itself and \<open>NaN\<close>, \<open>Infinity\<close> and \<open>-Infinity\<close> as \<open>null\<close>.
\<close>

datatype json = JNull | JNumber real

fun stringify_num :: "jsnum \<Rightarrow> json" where
  "stringify_num (Fin r) = JNumber r"
| "stringify_num NaN = JNull"
| "stringify_num PosInf = JNull"
| "stringify_num NegInf = JNull"

datatype js_error = TypeError

datatype latlng = LatLng (lat: real) (lng: real)

section \<open>Route selection and infrastructure placement\<close>

datatype selecting = SelSource | SelDest

datatype infra_kind = Gateway | Tower | Toll

text \<open>
  The requests the handlers pass to \<open>fetch\<close>, with the fields of their JSON bodies in
  the order the source writes them. \<open>sent\<close> in the state is the log of these calls.
\<close>

datatype request =
    AddGateway (req_lon: real) (req_lat: real)
  | AddMobileTower (req_lon: real) (req_lat: real) (req_radius: json)
  | AddTollGate (req_lon: real) (req_lat: real) (req_fee: json)
  | RoutePreview (req_number: nat) (source_lat: real) (source_lon: real)
      (dest_lat: real) (dest_lon: real)
  | InfraStats

text \<open>
  What \<open>loadInfrastructure\<close> draws into a layer group: a circle marker with its pixel
  radius, and for a tower with a truthy radius a range circle with its radius in
  metres. Tooltips and the context-menu handlers of the markers are not modelled.
\<close>

datatype infra_shape =
    CircleMarker real real nat
  | RangeCircle real real real

text \<open>
  The variables of the closure. \<open>selecting\<close>, \<open>sourceLatLng\<close>, \<open>destLatLng\<close>,
  \<open>sourceMarker\<close>, \<open>destMarker\<close>, \<open>routeLine\<close> and \<open>infraMode\<close> are \<open>null\<close> when
  \<open>None\<close>. A marker is represented by the coordinate it stands at and the route line by
  its list of points. The flags are the \<open>active\<close> class of a button and the
  \<open>disabled\<close> property of a button; the two strings are the current texts of the
  radius and fee inputs. The three layer lists are the contents of the layer groups of
  \<open>infraLayers\<close>. The text of the route status line is not modelled.
\<close>

record ui_state =
  selecting :: "selecting option"
  sourceLatLng :: "latlng option"
  destLatLng :: "latlng option"
  sourceMarker :: "latlng option"
  destMarker :: "latlng option"
  routeLine :: "(real \<times> real) list option"
  infraMode :: "infra_kind option"
  selectSourceBtnActive :: bool
  selectDestBtnActive :: bool
  gatewayBtnActive :: bool
  towerBtnActive :: bool
  tollBtnActive :: bool
  cancelModeBtnDisabled :: bool
  infraStatusText :: string
  addRoutedBtnDisabled :: bool
  clearRouteBtnDisabled :: bool
  startEventBtnDisabled :: bool
  towerRadiusInput :: string
  tollFeeInput :: string
  gatewaysLayer :: "infra_shape list"
  towerLayer :: "infra_shape list"
  tollLayer :: "infra_shape list"
  sent :: "request list"

text \<open>
  \<open>updateRouteStatus\<close>, as rebound at the end of the script: the original function
  followed by \<open>updateEventButtonEnable\<close>.
\<close>

definition updateRouteStatus :: "ui_state \<Rightarrow> ui_state" where
  "updateRouteStatus s =
     (let ready = (sourceLatLng s \<noteq> None \<and> destLatLng s \<noteq> None) in
      s\<lparr>addRoutedBtnDisabled := \<not> ready,
        clearRouteBtnDisabled := (\<not> ready \<and> sourceLatLng s = None \<and> destLatLng s = None),
        startEventBtnDisabled := \<not> (sourceLatLng s \<noteq> None \<and> destLatLng s \<noteq> None)\<rparr>)"

definition clearRouteSelection :: "ui_state \<Rightarrow> ui_state" where
  "clearRouteSelection s =
     updateRouteStatus
       (s\<lparr>sourceMarker := None, destMarker := None, routeLine := None,
          sourceLatLng := None, destLatLng := None, selecting := None\<rparr>)"

definition selectSourceBtn_click :: "ui_state \<Rightarrow> ui_state" where
  "selectSourceBtn_click s =
     s\<lparr>selecting := Some SelSource, selectSourceBtnActive := True,
       selectDestBtnActive := False\<rparr>"

definition selectDestBtn_click :: "ui_state \<Rightarrow> ui_state" where
  "selectDestBtn_click s =
     s\<lparr>selecting := Some SelDest, selectDestBtnActive := True,
       selectSourceBtnActive := False\<rparr>"

fun mode_name :: "infra_kind option \<Rightarrow> string" where
  "mode_name None = ''none''"
| "mode_name (Some Gateway) = ''gateway''"
| "mode_name (Some Tower) = ''tower''"
| "mode_name (Some Toll) = ''toll''"

definition setInfraMode :: "infra_kind option \<Rightarrow> ui_state \<Rightarrow> ui_state" where
  "setInfraMode mode s =
     s\<lparr>infraMode := mode,
       gatewayBtnActive := (mode = Some Gateway),
       towerBtnActive := (mode = Some Tower),
       tollBtnActive := (mode = Some Toll),
       cancelModeBtnDisabled := (mode = None),
       infraStatusText := ''Mode: '' @ mode_name mode\<rparr>"

text \<open>
  The body of the placement request for a click at \<open>e\<close>. \<open>parseFloat\<close> is the
  browser's function and is a parameter here. \<open>x || d\<close> is \<open>x\<close> when \<open>x\<close> is truthy
  and \<open>d\<close> otherwise; the default radius is \<open>0.01\<close> and the default fee is \<open>null\<close>.
\<close>

definition radiusVal :: "(string \<Rightarrow> jsnum) \<Rightarrow> ui_state \<Rightarrow> jsnum" where
  "radiusVal parseFloat s =
     (if truthy_num (parseFloat (towerRadiusInput s))
      then parseFloat (towerRadiusInput s) else Fin (1 / 100))"

definition feeVal :: "(string \<Rightarrow> jsnum) \<Rightarrow> ui_state \<Rightarrow> jsnum option" where
  "feeVal parseFloat s =
     (if truthy_num (parseFloat (tollFeeInput s))
      then Some (parseFloat (tollFeeInput s)) else None)"

fun stringify_opt :: "jsnum option \<Rightarrow> json" where
  "stringify_opt None = JNull"
| "stringify_opt (Some x) = stringify_num x"

fun place_request :: "(string \<Rightarrow> jsnum) \<Rightarrow> infra_kind \<Rightarrow> latlng \<Rightarrow> ui_state \<Rightarrow> request" where
  "place_request parseFloat Gateway e s = AddGateway (lng e) (lat e)"
| "place_request parseFloat Tower e s =
     AddMobileTower (lng e) (lat e) (stringify_num (radiusVal parseFloat s))"
| "place_request parseFloat Toll e s =
     AddTollGate (lng e) (lat e) (stringify_opt (feeVal parseFloat s))"

text \<open>The four statements that end the click handler on its selection paths.\<close>

definition finish_click :: "ui_state \<Rightarrow> ui_state" where
  "finish_click s =
     updateRouteStatus
       (s\<lparr>selecting := None, selectSourceBtnActive := False, selectDestBtnActive := False\<rparr>)"

text \<open>
  The map's click handler. In placement mode it sends one request and returns early.
  Otherwise it takes the first of three branches. The destination branch reads
  \<open>sourceLatLng.lat\<close> while building the request body: when no source is set this
  throws a \<open>TypeError\<close> after the destination and its marker have been written and
  before anything is sent, and the rest of the handler does not run.
\<close>

definition map_click :: "(string \<Rightarrow> jsnum) \<Rightarrow> latlng \<Rightarrow> ui_state \<Rightarrow> js_error option \<times> ui_state" where
  "map_click parseFloat e s =
     (case infraMode s of
        Some k \<Rightarrow> (None, s\<lparr>sent := sent s @ [place_request parseFloat k e s]\<rparr>)
      | None \<Rightarrow>
          if selecting s = Some SelSource \<or> (sourceLatLng s = None \<and> selecting s = None) then
            (let s1 = s\<lparr>sourceLatLng := Some e, sourceMarker := Some e\<rparr>;
                 s2 = (if destLatLng s1 \<noteq> None
                       then s1\<lparr>destLatLng := None, destMarker := None, routeLine := None\<rparr>
                       else s1)
             in (None, finish_click s2))
          else if selecting s = Some SelDest \<or> (destLatLng s = None \<and> sourceLatLng s \<noteq> None) then
            (let s1 = s\<lparr>destLatLng := Some e, destMarker := Some e\<rparr> in
             case sourceLatLng s1 of
               None \<Rightarrow> (Some TypeError, s1)
             | Some src \<Rightarrow>
                 (None, finish_click
                    (s1\<lparr>sent := sent s1 @ [RoutePreview 1 (lat src) (lng src) (lat e) (lng e)]\<rparr>)))
          else
            (None, finish_click
               (s\<lparr>sourceLatLng := Some e, sourceMarker := Some e,
                  destLatLng := None, destMarker := None, routeLine := None\<rparr>)))"

text \<open>
  The continuation of the route-preview request. A rejected fetch or a body that is not
  JSON ends in the empty \<open>catch\<close>. A parsed reply with a truthy \<open>ok\<close> removes the
  current line and draws the reply's points, each \<open>[lon, lat]\<close> pair swapped; if the
  reply has no \<open>points\<close> the \<open>map\<close> call throws after the removal, into the same
  \<open>catch\<close>. The continuation reads no variable of the selection.
\<close>

record preview_data =
  ok :: bool
  points :: "(real \<times> real) list option"

definition swap_points :: "(real \<times> real) list \<Rightarrow> (real \<times> real) list" where
  "swap_points ps = map (\<lambda>p. (snd p, fst p)) ps"

datatype 'a settled = Rejected | Resolved 'a

fun preview_settled :: "preview_data settled \<Rightarrow> ui_state \<Rightarrow> ui_state" where
  "preview_settled Rejected s = s"
| "preview_settled (Resolved d) s =
     (if ok d then
        (case points d of
           None \<Rightarrow> s\<lparr>routeLine := None\<rparr>
         | Some ps \<Rightarrow> s\<lparr>routeLine := Some (swap_points ps)\<rparr>)
      else s)"

text \<open>
  \<open>loadInfrastructure\<close> in its two parts: the call sends the stats request, and the
  rest runs when the request has settled. \<open>snap\<close> is \<open>None\<close> when the fetch was
  rejected or the body was not JSON (the \<open>catch\<close> on the promise turns both into
  \<open>null\<close>) and when the parsed body is itself falsy. The layers are cleared before
  \<open>snap\<close> is looked at. A list missing from the reply counts as empty, and a tower's
  radius is \<open>None\<close> when the entry has none.
\<close>

record tower_entry =
  tower_lat :: real
  tower_lon :: real
  tower_radius :: "real option"

record infra_snap =
  gateways :: "(real \<times> real) list option"
  mobile_towers :: "tower_entry list option"
  toll_gates :: "(real \<times> real) list option"

definition or_empty :: "'a list option \<Rightarrow> 'a list" where
  "or_empty l = (case l of None \<Rightarrow> [] | Some xs \<Rightarrow> xs)"

definition degreesToMetersLat :: "real \<Rightarrow> real" where
  "degreesToMetersLat deg = deg * 111000"

fun tower_shapes :: "tower_entry \<Rightarrow> infra_shape list" where
  "tower_shapes t =
     CircleMarker (tower_lat t) (tower_lon t) 5 #
     (case tower_radius t of
        None \<Rightarrow> []
      | Some r \<Rightarrow>
          if r = 0 then [] else [RangeCircle (tower_lat t) (tower_lon t) (degreesToMetersLat r)])"

definition clearInfraLayers :: "ui_state \<Rightarrow> ui_state" where
  "clearInfraLayers s = s\<lparr>gatewaysLayer := [], towerLayer := [], tollLayer := []\<rparr>"

definition loadInfrastructure_start :: "ui_state \<Rightarrow> ui_state" where
  "loadInfrastructure_start s = s\<lparr>sent := sent s @ [InfraStats]\<rparr>"

definition loadInfrastructure_settled :: "infra_snap option \<Rightarrow> ui_state \<Rightarrow> ui_state" where
  "loadInfrastructure_settled snap s =
     (let s1 = clearInfraLayers s in
      case snap of
        None \<Rightarrow> s1
      | Some sn \<Rightarrow>
          s1\<lparr>gatewaysLayer := map (\<lambda>g. CircleMarker (fst g) (snd g) 7) (or_empty (gateways sn)),
             towerLayer := concat (map tower_shapes (or_empty (mobile_towers sn))),
             tollLayer := map (\<lambda>g. CircleMarker (fst g) (snd g) 6) (or_empty (toll_gates sn))\<rparr>)"

text \<open>
  The state when the script has run: nothing selected, no mode, the three route buttons
  disabled by the closing call of \<open>updateRouteStatus\<close>. What the page itself sets (the
  texts of the two inputs, the mode line, the cancel button) are parameters.
\<close>

definition init_state :: "string \<Rightarrow> string \<Rightarrow> string \<Rightarrow> bool \<Rightarrow> ui_state" where
  "init_state radius_text fee_text mode_text cancel_disabled =
     \<lparr>selecting = None, sourceLatLng = None, destLatLng = None,
      sourceMarker = None, destMarker = None, routeLine = None, infraMode = None,
      selectSourceBtnActive = False, selectDestBtnActive = False,
      gatewayBtnActive = False, towerBtnActive = False, tollBtnActive = False,
      cancelModeBtnDisabled = cancel_disabled, infraStatusText = mode_text,
      addRoutedBtnDisabled = True, clearRouteBtnDisabled = True,
      startEventBtnDisabled = True,
      towerRadiusInput = radius_text, tollFeeInput = fee_text,
      gatewaysLayer = [], towerLayer = [], tollLayer = [], sent = []\<rparr>"

text \<open>
  The events of the script and the run of a list of them from a state. A click whose
  handler throws leaves the state as the handler had written it so far.
  \<open>LoadInfrastructure\<close> is a call of \<open>loadInfrastructure\<close>: by the timer, by the stats
  button, or by the continuation of an add, delete, load or clear request.
\<close>

datatype event =
    SelectSourceBtn
  | SelectDestBtn
  | ClearRouteBtn
  | InfraModeBtn "infra_kind option"
  | MapClick latlng
  | PreviewSettled "preview_data settled"
  | LoadInfrastructure
  | InfraStatsSettled "infra_snap option"

fun step :: "(string \<Rightarrow> jsnum) \<Rightarrow> ui_state \<Rightarrow> event \<Rightarrow> ui_state" where
  "step parseFloat s SelectSourceBtn = selectSourceBtn_click s"
| "step parseFloat s SelectDestBtn = selectDestBtn_click s"
| "step parseFloat s ClearRouteBtn = clearRouteSelection s"
| "step parseFloat s (InfraModeBtn m) = setInfraMode m s"
| "step parseFloat s (MapClick e) = snd (map_click parseFloat e s)"
| "step parseFloat s (PreviewSettled r) = preview_settled r s"
| "step parseFloat s LoadInfrastructure = loadInfrastructure_start s"
| "step parseFloat s (InfraStatsSettled snap) = loadInfrastructure_settled snap s"

definition run :: "(string \<Rightarrow> jsnum) \<Rightarrow> ui_state \<Rightarrow> event list \<Rightarrow> ui_state" where
  "run parseFloat s evs = foldl (step parseFloat) s evs"

fun is_preview_settled :: "event \<Rightarrow> bool" where
  "is_preview_settled (PreviewSettled r) = True"
| "is_preview_settled ev = False"

text \<open>The placement kind a request belongs to, if any.\<close>

fun request_kind :: "request \<Rightarrow> infra_kind option" where
  "request_kind (AddGateway x y) = Some Gateway"
| "request_kind (AddMobileTower x y r) = Some Tower"
| "request_kind (AddTollGate x y f) = Some Toll"
| "request_kind (RoutePreview n a b c d) = None"
| "request_kind InfraStats = None"

subsection \<open>Sample inputs\<close>

text \<open>
  Values of the browser's \<open>parseFloat\<close> on five texts. \<open>parseFloat_sample\<close> stands
  for \<open>parseFloat\<close> in the examples and is applied to these texts only.
\<close>

definition parseFloat_table :: "(string \<times> jsnum) list" where
  "parseFloat_table =
     [(''0'', Fin 0), (''2.5'', Fin (5 / 2)), (''Infinity'', PosInf), (''abc'', NaN), ('''', NaN)]"

definition parseFloat_sample :: "string \<Rightarrow> jsnum" where
  "parseFloat_sample t = (case map_of parseFloat_table t of Some v \<Rightarrow> v | None \<Rightarrow> NaN)"

definition sample_state :: ui_state where
  "sample_state = init_state ''abc'' ''0'' ''Mode: none'' True"

definition sample_reply :: preview_data where
  "sample_reply = \<lparr>ok = True, points = Some [(2, 1), (4, 3)]\<rparr>"

section \<open>Entity snapshots\<close>

text \<open>
  The identifier of an agent as \<open>JSON.parse\<close> delivers it: a string or a number.
  Numbers are modelled as integers. As a property key an identifier is converted to a
  string; an integer becomes its decimal digits (what JavaScript prints for integers
  below \<open>10\<^sup>2\<^sup>1\<close> in absolute value).
\<close>

datatype jsid = IdStr string | IdNum int

fun nat_digits :: "nat \<Rightarrow> string" where
  "nat_digits n =
     (if n < 10 then [''0123456789'' ! n]
      else nat_digits (n div 10) @ [''0123456789'' ! (n mod 10)])"

declare nat_digits.simps [simp del]

definition int_key :: "int \<Rightarrow> string" where
  "int_key i = (if i < 0 then CHR ''-'' # nat_digits (nat (- i)) else nat_digits (nat i))"

fun to_key :: "jsid \<Rightarrow> string" where
  "to_key (IdStr s) = s"
| "to_key (IdNum i) = int_key i"

fun is_string_id :: "jsid \<Rightarrow> bool" where
  "is_string_id (IdStr s) = True"
| "is_string_id (IdNum i) = False"

text \<open>
  An entry of a snapshot. \<open>agent_phase\<close> is \<open>None\<close> when the entry has no phase and
  \<open>agent_stop\<close> is the truthiness of its \<open>stop\<close> field.
\<close>

record agent =
  agent_id :: jsid
  agent_lat :: real
  agent_lon :: real
  agent_type :: string
  agent_phase :: "string option"
  agent_stop :: bool

text \<open>
  \<open>markerStyleFor\<close>. Every style it returns is the same base with one colour used for
  both stroke and fill; the model returns that colour.
\<close>

definition markerStyleFor :: "agent \<Rightarrow> string" where
  "markerStyleFor a =
     (if agent_type a = ''event'' then
        (if agent_phase a = Some ''to_dest'' then ''#ff9800''
         else if agent_phase a = Some ''dwelling'' then ''#e53935''
         else if agent_phase a = Some ''exiting'' then ''#6a1b9a''
         else if agent_phase a = Some ''settled'' then ''#2e7d32''
         else ''#ffb74d'')
      else if agent_stop a then ''#0d47a1''
      else if agent_type a = ''random'' then ''#2d6cdf''
      else ''#1976d2'')"

text \<open>
  A render handle: the circle on the map, with its centre and style. \<open>agentMarkers\<close> is
  an object used as a dictionary from property keys to handles; it is modelled as an
  association list in the order the keys were added.
\<close>

record marker =
  center :: "real \<times> real"
  style :: string

type_synonym markers = "(string \<times> marker) list"

definition marker_of :: "agent \<Rightarrow> marker" where
  "marker_of a = \<lparr>center = (agent_lat a, agent_lon a), style = markerStyleFor a\<rparr>"

text \<open>
  \<open>agentMarkers\<close> is created as \<open>{}\<close>, so reading a key it does not own finds the
  member of that name that every object inherits, if there is one. These are the
  names; each of the inherited values is truthy and has no \<open>setLatLng\<close>.
\<close>

definition object_prototype_names :: "string list" where
  "object_prototype_names =
     [''constructor'', ''hasOwnProperty'', ''isPrototypeOf'', ''propertyIsEnumerable'',
      ''toLocaleString'', ''toString'', ''valueOf'', ''__proto__'',
      ''__defineGetter__'', ''__defineSetter__'', ''__lookupGetter__'', ''__lookupSetter__'']"

text \<open>What the handler does to handles, in the order it does it.\<close>

datatype op = Create string | Update string | Destroy string

text \<open>
  The \<open>forEach\<close> over the snapshot. For an agent whose key has a handle the handle is
  moved and restyled in place. For a key without a handle a circle is created, unless
  the key names an inherited member: then the test \<open>agentMarkers[agent.id]\<close> is truthy,
  the call of \<open>setLatLng\<close> on the inherited value throws a \<open>TypeError\<close> and the
  handler ends there, with the handles as they are at that point.
\<close>

fun forEach_agent :: "agent list \<Rightarrow> markers \<Rightarrow> op list \<Rightarrow> js_error option \<times> markers \<times> op list" where
  "forEach_agent [] m ops = (None, m, ops)"
| "forEach_agent (a # as) m ops =
     (case map_of m (to_key (agent_id a)) of
        Some h \<Rightarrow>
          forEach_agent as (AList.update (to_key (agent_id a)) (marker_of a) m)
            (ops @ [Update (to_key (agent_id a))])
      | None \<Rightarrow>
          if to_key (agent_id a) \<in> set object_prototype_names then (Some TypeError, m, ops)
          else
            forEach_agent as (AList.update (to_key (agent_id a)) (marker_of a) m)
              (ops @ [Create (to_key (agent_id a))]))"

text \<open>
  \<open>currentAgentIds\<close> is a \<open>Set\<close> of the identifiers as they came, and the closing loop
  asks it for each property key of \<open>agentMarkers\<close>. A key is a string, and a \<open>Set\<close>
  compares without conversion, so the key is found exactly when the snapshot holds
  that string as an identifier.
\<close>

definition has_id :: "agent list \<Rightarrow> string \<Rightarrow> bool" where
  "has_id agents k = (IdStr k \<in> set (map agent_id agents))"

text \<open>
  The message handler, from the parsed snapshot and the handles before to the error
  thrown (if any), the handles after and the operations performed. The closing loop
  removes the handles in the enumeration order of the object's keys; the model lists
  them in the order of the association list, and nothing below depends on that order.
\<close>

definition ws_onmessage :: "agent list \<Rightarrow> markers \<Rightarrow> js_error option \<times> markers \<times> op list" where
  "ws_onmessage agents m =
     (case forEach_agent agents m [] of
        (Some e, m', ops) \<Rightarrow> (Some e, m', ops)
      | (None, m', ops) \<Rightarrow>
          (None,
           filter (\<lambda>kv. has_id agents (fst kv)) m',
           ops @ map (\<lambda>kv. Destroy (fst kv)) (filter (\<lambda>kv. \<not> has_id agents (fst kv)) m')))"

definition thrown :: "js_error option \<times> markers \<times> op list \<Rightarrow> js_error option" where
  "thrown r = fst r"

definition markers_after :: "js_error option \<times> markers \<times> op list \<Rightarrow> markers" where
  "markers_after r = fst (snd r)"

definition ops_of :: "js_error option \<times> markers \<times> op list \<Rightarrow> op list" where
  "ops_of r = snd (snd r)"

text \<open>The keys that hold a handle, and the handles after a sequence of snapshots.\<close>

definition rendered :: "markers \<Rightarrow> string set" where
  "rendered m = set (map fst m)"

definition apply_all :: "markers \<Rightarrow> agent list list \<Rightarrow> markers" where
  "apply_all m snaps = foldl (\<lambda>m' snap. markers_after (ws_onmessage snap m')) m snaps"

fun is_create :: "op \<Rightarrow> bool" where
  "is_create (Create k) = True"
| "is_create x = False"

fun is_destroy :: "op \<Rightarrow> bool" where
  "is_destroy (Destroy k) = True"
| "is_destroy x = False"

text \<open>Sample snapshots: two agents with string identifiers, one with a number.\<close>

definition agent_a :: agent where
  "agent_a = \<lparr>agent_id = IdStr ''a1'', agent_lat = 1, agent_lon = 2, agent_type = ''random'',
     agent_phase = None, agent_stop = False\<rparr>"

definition agent_b :: agent where
  "agent_b = \<lparr>agent_id = IdStr ''b2'', agent_lat = 3, agent_lon = 4, agent_type = ''event'',
     agent_phase = Some ''dwelling'', agent_stop = False\<rparr>"

definition agent_1 :: agent where
  "agent_1 = \<lparr>agent_id = IdNum 1, agent_lat = 1, agent_lon = 2, agent_type = ''random'',
     agent_phase = None, agent_stop = False\<rparr>"

definition agent_c :: agent where
  "agent_c = \<lparr>agent_id = IdStr ''constructor'', agent_lat = 5, agent_lon = 6,
     agent_type = ''random'', agent_phase = None, agent_stop = False\<rparr>"

section \<open>The density layer and the prediction fetch\<close>

text \<open>
  A tile of the prediction reply. \<open>h3_index\<close>, \<open>tile_lat\<close> and \<open>tile_lon\<close> are
  \<open>None\<close> when the tile has no such field. Weights are doubles, modelled as reals.
\<close>

record tile =
  weight :: real
  h3_index :: "string option"
  tile_lat :: "real option"
  tile_lon :: "real option"

text \<open>
  \<open>Math.round\<close>, and \<open>colorForWeight\<close> as the three channels of the colour; its
  parameter is \<open>norm\<close> in the source.
\<close>

definition js_round :: "real \<Rightarrow> int" where
  "js_round x = \<lfloor>x + 1 / 2\<rfloor>"

definition colorForWeight :: "real \<Rightarrow> int \<times> int \<times> int" where
  "colorForWeight nrm =
     (if nrm \<le> 1 / 2 then
        (let t = nrm / (1 / 2) in
         (js_round (68 + (255 - 68) * t), js_round (68 + (235 - 68) * t),
          js_round (68 + (59 - 68) * t)))
      else
        (let t = (nrm - 1 / 2) / (1 / 2) in
         (js_round (255 + (244 - 255) * t), js_round (235 + (67 - 235) * t),
          js_round (59 + (54 - 59) * t))))"

text \<open>
  The quantile function \<open>q\<close> of \<open>drawHexes\<close> over the sorted weights \<open>ws\<close>: the
  element at \<open>Math.floor(p * (ws.length - 1))\<close>, the index held between \<open>0\<close> and
  \<open>ws.length - 1\<close>. It is called on a list that is not empty. The product is
  computed in doubles in the source and exactly here; for the two fractions used and
  any list a browser can hold, both have the same floor.
\<close>

definition q :: "real list \<Rightarrow> real \<Rightarrow> real" where
  "q ws p = ws ! nat (max 0 (min (int (length ws) - 1) \<lfloor>p * (real (length ws) - 1)\<rfloor>))"

text \<open>
  The normalised weight: \<open>Math.max(0, Math.min(1, (w - minW) / range))\<close>, with \<open>rng\<close>
  for the source's \<open>range\<close>.
\<close>

definition normalized :: "real \<Rightarrow> real \<Rightarrow> real \<Rightarrow> real" where
  "normalized minW rng w = max 0 (min 1 ((w - minW) / rng))"

text \<open>
  What is added to the layer for a tile: a polygon with its fill colour, or a circle
  with centre, radius in metres and fill colour. The last field is the normalised
  weight, which the tooltip shows as a percentage.
\<close>

datatype shape =
    Polygon "(real \<times> real) list" "int \<times> int \<times> int" real
  | Circle real real real "int \<times> int \<times> int" real

fun shape_norm :: "shape \<Rightarrow> real" where
  "shape_norm (Polygon b c n) = n"
| "shape_norm (Circle la lo r c n) = n"

definition truthy_text :: "string option \<Rightarrow> bool" where
  "truthy_text t = (case t of None \<Rightarrow> False | Some x \<Rightarrow> x \<noteq> [])"

definition truthy_coord :: "real option \<Rightarrow> bool" where
  "truthy_coord c = (case c of None \<Rightarrow> False | Some x \<Rightarrow> x \<noteq> 0)"

text \<open>
  The body of the loop over the tiles. \<open>h3\<close> is \<open>window.h3\<close>: \<open>None\<close> when the library
  is not loaded, otherwise its \<open>cellToBoundary\<close>, which gives \<open>None\<close> where it throws;
  the \<open>catch\<close> around the polygon branch then draws nothing for the tile. A tile with
  neither a usable index nor two truthy coordinates is skipped.
\<close>

definition draw_tile ::
  "(string \<Rightarrow> (real \<times> real) list option) option \<Rightarrow> real \<Rightarrow> real \<Rightarrow> tile \<Rightarrow> shape list" where
  "draw_tile h3 minW rng t =
     (if h3 \<noteq> None \<and> truthy_text (h3_index t) then
        (case the h3 (the (h3_index t)) of
           None \<Rightarrow> []
         | Some polyCoords \<Rightarrow>
             [Polygon polyCoords (colorForWeight (normalized minW rng (weight t)))
                (normalized minW rng (weight t))])
      else if truthy_coord (tile_lat t) \<and> truthy_coord (tile_lon t) then
        [Circle (the (tile_lat t)) (the (tile_lon t))
           (50 + normalized minW rng (weight t) * 200)
           (colorForWeight (normalized minW rng (weight t)))
           (normalized minW rng (weight t))]
      else [])"

text \<open>
  The percentile bounds and the range of \<open>drawHexes\<close>: \<open>lo\<close> and \<open>hi\<close> are the
  quantiles at \<open>0.05\<close> and \<open>0.95\<close> of the weights sorted ascending, and the range is
  \<open>(hi - lo) || 1\<close>, that is \<open>1\<close> when the difference is zero.
\<close>

definition lo_of :: "tile list \<Rightarrow> real" where
  "lo_of tiles = q (sort (map weight tiles)) (5 / 100)"

definition hi_of :: "tile list \<Rightarrow> real" where
  "hi_of tiles = q (sort (map weight tiles)) (95 / 100)"

definition range_of :: "tile list \<Rightarrow> real" where
  "range_of tiles = (if hi_of tiles - lo_of tiles = 0 then 1 else hi_of tiles - lo_of tiles)"

text \<open>
  \<open>drawHexes\<close>: the layer after the call. The layer is \<open>None\<close> while the map has not
  been set up, and then nothing is drawn. Otherwise the layer is emptied, and for a
  list of tiles that is not empty every tile is drawn on the common scale.
\<close>

definition drawHexes ::
  "(string \<Rightarrow> (real \<times> real) list option) option \<Rightarrow> tile list \<Rightarrow> shape list option
     \<Rightarrow> shape list option" where
  "drawHexes h3 tiles layer =
     (case layer of
        None \<Rightarrow> None
      | Some old \<Rightarrow>
          if tiles = [] then Some []
          else
            (let minW = lo_of tiles; rng = range_of tiles
             in Some (concat (map (draw_tile h3 minW rng) tiles))))"

text \<open>
  The component's layer and status line. \<open>runPrediction\<close> sets the status to
  \<open>Predicting...\<close>, fetches, and continues with one of: a rejected fetch, a response
  that is not \<open>ok\<close>, a body that is not JSON (each with the message of the error
  thrown), or the parsed reply with its tiles, if it has any. The model gives the view
  when the function has finished; every path overwrites the status set at the start.
\<close>

datatype status =
    StatusIdle
  | StatusPredicting
  | StatusRendered nat
  | StatusNoTiles
  | StatusError string

record density_view =
  hexLayer :: "shape list option"
  status :: status

datatype prediction_outcome =
    FetchRejected string
  | HttpNotOk string
  | BodyNotJson string
  | Reply "tile list option"

fun is_failure :: "prediction_outcome \<Rightarrow> bool" where
  "is_failure (Reply tiles) = False"
| "is_failure x = True"

fun failure_message :: "prediction_outcome \<Rightarrow> string" where
  "failure_message (FetchRejected msg) = msg"
| "failure_message (HttpNotOk msg) = msg"
| "failure_message (BodyNotJson msg) = msg"
| "failure_message (Reply tiles) = []"

fun runPrediction ::
  "(string \<Rightarrow> (real \<times> real) list option) option \<Rightarrow> prediction_outcome \<Rightarrow> density_view
     \<Rightarrow> density_view" where
  "runPrediction h3 (Reply (Some tiles)) v =
     (if tiles \<noteq> []
      then \<lparr>hexLayer = drawHexes h3 tiles (hexLayer v), status = StatusRendered (length tiles)\<rparr>
      else v\<lparr>status := StatusNoTiles\<rparr>)"
| "runPrediction h3 (Reply None) v = v\<lparr>status := StatusNoTiles\<rparr>"
| "runPrediction h3 (FetchRejected msg) v = v\<lparr>status := StatusError msg\<rparr>"
| "runPrediction h3 (HttpNotOk msg) v = v\<lparr>status := StatusError msg\<rparr>"
| "runPrediction h3 (BodyNotJson msg) v = v\<lparr>status := StatusError msg\<rparr>"

text \<open>
  Sample tiles: a circle tile of a given weight; the weights \<open>1\<close> to \<open>100\<close>; three
  tiles whose percentile values coincide; three tiles of distinct weights.
\<close>

definition circle_tile :: "real \<Rightarrow> tile" where
  "circle_tile w = \<lparr>weight = w, h3_index = None, tile_lat = Some 23, tile_lon = Some 75\<rparr>"

definition tiles_1_100 :: "tile list" where
  "tiles_1_100 = map (\<lambda>i. circle_tile (real i)) [1..<101]"

definition tiles_flat :: "tile list" where
  "tiles_flat = [circle_tile 0, circle_tile (1 / 2), circle_tile 0]"

definition tiles_small :: "tile list" where
  "tiles_small = [circle_tile 4, circle_tile 1, circle_tile 2]"

section \<open>Properties of the selection flow\<close>

lemma updateRouteStatus_fields [simp]:
  "selecting (updateRouteStatus s) = selecting s"
  "sourceLatLng (updateRouteStatus s) = sourceLatLng s"
  "destLatLng (updateRouteStatus s) = destLatLng s"
  "sourceMarker (updateRouteStatus s) = sourceMarker s"
  "destMarker (updateRouteStatus s) = destMarker s"
  "routeLine (updateRouteStatus s) = routeLine s"
  "infraMode (updateRouteStatus s) = infraMode s"
  "sent (updateRouteStatus s) = sent s"
  by (simp_all add: updateRouteStatus_def Let_def)

lemma finish_click_fields [simp]:
  "selecting (finish_click s) = None"
  "sourceLatLng (finish_click s) = sourceLatLng s"
  "destLatLng (finish_click s) = destLatLng s"
  "sourceMarker (finish_click s) = sourceMarker s"
  "destMarker (finish_click s) = destMarker s"
  "routeLine (finish_click s) = routeLine s"
  "infraMode (finish_click s) = infraMode s"
  "sent (finish_click s) = sent s"
  "selectSourceBtnActive (finish_click s) = False"
  "selectDestBtnActive (finish_click s) = False"
  by (simp_all add: finish_click_def updateRouteStatus_def Let_def)

text \<open>
  Claim C2. From a state with no placement mode, no selection mode, no source and no
  destination, a click at \<open>a\<close> sets the source to \<open>a\<close>, sends nothing and ends with no
  mode; the next click at \<open>b\<close> sets the destination to \<open>b\<close>, keeps the source, sends
  one route-preview request for \<open>(a, b)\<close> and ends with no mode; a third click at
  \<open>c\<close>, whether or not a preview line \<open>rl\<close> has been drawn in between, sets the source
  to \<open>c\<close> and clears the destination and the preview line. None of the three clicks
  throws.
\<close>

theorem C2_two_click_flow:
  assumes idle: "infraMode s = None" "selecting s = None"
    and none: "sourceLatLng s = None" "destLatLng s = None"
  shows "fst (map_click pf a s) = None
    \<and> sourceLatLng (snd (map_click pf a s)) = Some a
    \<and> destLatLng (snd (map_click pf a s)) = None
    \<and> selecting (snd (map_click pf a s)) = None
    \<and> infraMode (snd (map_click pf a s)) = None
    \<and> sent (snd (map_click pf a s)) = sent s
    \<and> fst (map_click pf b (snd (map_click pf a s))) = None
    \<and> sourceLatLng (snd (map_click pf b (snd (map_click pf a s)))) = Some a
    \<and> destLatLng (snd (map_click pf b (snd (map_click pf a s)))) = Some b
    \<and> selecting (snd (map_click pf b (snd (map_click pf a s)))) = None
    \<and> infraMode (snd (map_click pf b (snd (map_click pf a s)))) = None
    \<and> sent (snd (map_click pf b (snd (map_click pf a s))))
        = sent s @ [RoutePreview 1 (lat a) (lng a) (lat b) (lng b)]
    \<and> fst (map_click pf c ((snd (map_click pf b (snd (map_click pf a s))))\<lparr>routeLine := rl\<rparr>)) = None
    \<and> sourceLatLng (snd (map_click pf c ((snd (map_click pf b (snd (map_click pf a s))))\<lparr>routeLine := rl\<rparr>))) = Some c
    \<and> destLatLng (snd (map_click pf c ((snd (map_click pf b (snd (map_click pf a s))))\<lparr>routeLine := rl\<rparr>))) = None
    \<and> routeLine (snd (map_click pf c ((snd (map_click pf b (snd (map_click pf a s))))\<lparr>routeLine := rl\<rparr>))) = None
    \<and> selecting (snd (map_click pf c ((snd (map_click pf b (snd (map_click pf a s))))\<lparr>routeLine := rl\<rparr>))) = None"
proof -
  define s1 where "s1 = snd (map_click pf a s)"
  define s2 where "s2 = snd (map_click pf b s1)"
  have c1: "map_click pf a s = (None, finish_click (s\<lparr>sourceLatLng := Some a, sourceMarker := Some a\<rparr>))"
    using idle none by (simp add: map_click_def Let_def)
  have f1: "infraMode s1 = None" "selecting s1 = None" "sourceLatLng s1 = Some a"
    "destLatLng s1 = None" "sent s1 = sent s"
    using idle none by (simp_all add: s1_def c1)
  have c2: "map_click pf b s1 = (None, finish_click
      (s1\<lparr>destLatLng := Some b, destMarker := Some b,
          sent := sent s1 @ [RoutePreview 1 (lat a) (lng a) (lat b) (lng b)]\<rparr>))"
    using f1 by (simp add: map_click_def Let_def)
  have f2: "infraMode s2 = None" "selecting s2 = None" "sourceLatLng s2 = Some a"
    "destLatLng s2 = Some b" "sent s2 = sent s @ [RoutePreview 1 (lat a) (lng a) (lat b) (lng b)]"
    using f1 by (simp_all add: s2_def c2)
  have c3: "map_click pf c (s2\<lparr>routeLine := rl\<rparr>) = (None, finish_click
      (s2\<lparr>routeLine := rl, sourceLatLng := Some c, sourceMarker := Some c,
          destLatLng := None, destMarker := None, routeLine := None\<rparr>))"
    using f2 by (simp add: map_click_def Let_def)
  show ?thesis
    unfolding s1_def [symmetric] s2_def [symmetric]
    using f1 f2 by (simp add: c1 c2 c3)
qed

text \<open>
  The flow of C2 from the initial state: clicks at \<open>(1, 2)\<close>, \<open>(3, 4)\<close> and, with a
  preview line drawn, \<open>(5, 6)\<close>.
\<close>

theorem C2_two_click_flow_witness:
  "sourceLatLng (snd (map_click parseFloat_sample (LatLng 1 2) sample_state)) = Some (LatLng 1 2)
   \<and> sent (snd (map_click parseFloat_sample (LatLng 3 4)
        (snd (map_click parseFloat_sample (LatLng 1 2) sample_state))))
     = [RoutePreview 1 1 2 3 4]
   \<and> destLatLng (snd (map_click parseFloat_sample (LatLng 5 6)
        ((snd (map_click parseFloat_sample (LatLng 3 4)
          (snd (map_click parseFloat_sample (LatLng 1 2) sample_state))))
        \<lparr>routeLine := Some [(1, 2), (3, 4)]\<rparr>))) = None
   \<and> routeLine (snd (map_click parseFloat_sample (LatLng 5 6)
        ((snd (map_click parseFloat_sample (LatLng 3 4)
          (snd (map_click parseFloat_sample (LatLng 1 2) sample_state))))
        \<lparr>routeLine := Some [(1, 2), (3, 4)]\<rparr>))) = None"
  using C2_two_click_flow [of sample_state parseFloat_sample
      "LatLng 1 2" "LatLng 3 4" "LatLng 5 6" "Some [(1, 2), (3, 4)]"]
  by (simp add: sample_state_def init_state_def)

text \<open>
  Claim C3, refuted. The request for \<open>(1, 2) \<rightarrow> (3, 4)\<close> is sent by the second click;
  a third click then changes the selection to source \<open>(5, 6)\<close> with no destination and
  no preview; the reply to the request, arriving after that, is drawn all the same.
\<close>

theorem C3_stale_preview_counterexample:
  "sent (run parseFloat_sample sample_state [MapClick (LatLng 1 2), MapClick (LatLng 3 4)])
     = [RoutePreview 1 1 2 3 4]
   \<and> sourceLatLng (run parseFloat_sample sample_state [MapClick (LatLng 1 2), MapClick (LatLng 3 4)])
     = Some (LatLng 1 2)
   \<and> destLatLng (run parseFloat_sample sample_state [MapClick (LatLng 1 2), MapClick (LatLng 3 4)])
     = Some (LatLng 3 4)
   \<and> sourceLatLng (run parseFloat_sample sample_state
        [MapClick (LatLng 1 2), MapClick (LatLng 3 4), MapClick (LatLng 5 6)])
     = Some (LatLng 5 6)
   \<and> destLatLng (run parseFloat_sample sample_state
        [MapClick (LatLng 1 2), MapClick (LatLng 3 4), MapClick (LatLng 5 6)])
     = None
   \<and> routeLine (run parseFloat_sample sample_state
        [MapClick (LatLng 1 2), MapClick (LatLng 3 4), MapClick (LatLng 5 6)])
     = None
   \<and> routeLine (run parseFloat_sample sample_state
        [MapClick (LatLng 1 2), MapClick (LatLng 3 4), MapClick (LatLng 5 6),
         PreviewSettled (Resolved sample_reply)])
     = Some [(1, 2), (3, 4)]"
  by (simp add: run_def map_click_def Let_def sample_state_def init_state_def sample_reply_def
      swap_points_def)

text \<open>
  Claim C3 as amended. The continuation of a preview request never compares the
  selection with anything: a reply with \<open>ok\<close> and points is drawn from its points in
  every state and nothing else changes, the line drawn for a reply with \<open>ok\<close> is the
  same in any two states, and only a reply without \<open>ok\<close> or a failed request leaves
  the state as it was.
\<close>

theorem C3_preview_reply_rendered:
  "(ok d \<longrightarrow> points d = Some ps \<longrightarrow>
      preview_settled (Resolved d) s = s\<lparr>routeLine := Some (swap_points ps)\<rparr>)
   \<and> (ok d \<longrightarrow> routeLine (preview_settled (Resolved d) s) = routeLine (preview_settled (Resolved d) s'))
   \<and> (\<not> ok d \<longrightarrow> preview_settled (Resolved d) s = s)
   \<and> preview_settled Rejected s = s"
  by (simp split: option.splits)

text \<open>The reply of the counterexample, drawn in the state after the third click.\<close>

theorem C3_preview_reply_rendered_witness:
  "preview_settled (Resolved sample_reply)
      (run parseFloat_sample sample_state
        [MapClick (LatLng 1 2), MapClick (LatLng 3 4), MapClick (LatLng 5 6)])
     = (run parseFloat_sample sample_state
        [MapClick (LatLng 1 2), MapClick (LatLng 3 4), MapClick (LatLng 5 6)])
       \<lparr>routeLine := Some [(1, 2), (3, 4)]\<rparr>"
  using C3_preview_reply_rendered [of sample_reply "[(2, 1), (4, 3)]"
      "run parseFloat_sample sample_state
        [MapClick (LatLng 1 2), MapClick (LatLng 3 4), MapClick (LatLng 5 6)]"]
  by (simp add: sample_reply_def swap_points_def)

text \<open>
  Claim C4, refuted on both parts. After three clicks and a late reply a preview line
  is drawn while no destination is set. And with source, destination and preview in
  place, choosing the destination again through the destination button changes the
  destination from \<open>(3, 4)\<close> to \<open>(7, 8)\<close> and leaves the old preview line drawn.
\<close>

theorem C4_preview_invariant_counterexample:
  "routeLine (run parseFloat_sample sample_state
        [MapClick (LatLng 1 2), MapClick (LatLng 3 4), MapClick (LatLng 5 6),
         PreviewSettled (Resolved sample_reply)])
     = Some [(1, 2), (3, 4)]
   \<and> destLatLng (run parseFloat_sample sample_state
        [MapClick (LatLng 1 2), MapClick (LatLng 3 4), MapClick (LatLng 5 6),
         PreviewSettled (Resolved sample_reply)])
     = None
   \<and> destLatLng (run parseFloat_sample sample_state
        [MapClick (LatLng 1 2), MapClick (LatLng 3 4), PreviewSettled (Resolved sample_reply)])
     = Some (LatLng 3 4)
   \<and> destLatLng (run parseFloat_sample sample_state
        [MapClick (LatLng 1 2), MapClick (LatLng 3 4), PreviewSettled (Resolved sample_reply),
         SelectDestBtn, MapClick (LatLng 7 8)])
     = Some (LatLng 7 8)
   \<and> routeLine (run parseFloat_sample sample_state
        [MapClick (LatLng 1 2), MapClick (LatLng 3 4), PreviewSettled (Resolved sample_reply),
         SelectDestBtn, MapClick (LatLng 7 8)])
     = Some [(1, 2), (3, 4)]"
  by (simp add: run_def map_click_def Let_def sample_state_def init_state_def sample_reply_def
      selectDestBtn_click_def swap_points_def)

lemma map_click_routeLine:
  "routeLine (snd (map_click pf e s)) = None \<or> routeLine (snd (map_click pf e s)) = routeLine s"
  by (simp add: map_click_def Let_def split: option.splits)

lemma step_keeps_no_preview:
  assumes "routeLine s = None" "is_preview_settled ev = False"
  shows "routeLine (step pf s ev) = None"
proof (cases ev)
  case (MapClick e)
  then show ?thesis using assms map_click_routeLine [of pf e s] by auto
qed (use assms in \<open>simp_all add: selectSourceBtn_click_def selectDestBtn_click_def
      clearRouteSelection_def setInfraMode_def loadInfrastructure_settled_def
      loadInfrastructure_start_def clearInfraLayers_def Let_def split: option.splits\<close>)

lemma run_keeps_no_preview:
  "routeLine s = None \<Longrightarrow> \<forall>ev\<in>set evs. is_preview_settled ev = False \<Longrightarrow>
   routeLine (run pf s evs) = None"
  unfolding run_def
proof (induction evs arbitrary: s)
  case Nil
  then show ?case by simp
next
  case (Cons ev evs)
  then show ?case by (simp add: step_keeps_no_preview)
qed

text \<open>
  Claim C4 as amended. A click never draws a preview: after it the line is gone or is
  the line that was there. \<open>clearRouteSelection\<close> removes the line with the source and
  the destination. Outside placement mode, a click that sets the source while a
  destination is set (every click then, unless the destination button was pressed)
  clears the destination and the line in the same handler run; a click after the
  destination button sets the destination and leaves the line as it was. From a state
  without a line, no sequence of buttons and clicks draws one: only a settled preview
  request does.
\<close>

theorem C4_preview_cleared:
  "(routeLine (snd (map_click pf e s)) = None \<or> routeLine (snd (map_click pf e s)) = routeLine s)
   \<and> routeLine (clearRouteSelection s) = None
   \<and> sourceLatLng (clearRouteSelection s) = None
   \<and> destLatLng (clearRouteSelection s) = None
   \<and> (infraMode s = None \<longrightarrow> destLatLng s \<noteq> None \<longrightarrow> selecting s \<noteq> Some SelDest \<longrightarrow>
        sourceLatLng (snd (map_click pf e s)) = Some e
        \<and> destLatLng (snd (map_click pf e s)) = None
        \<and> routeLine (snd (map_click pf e s)) = None)
   \<and> (infraMode s = None \<longrightarrow> selecting s = Some SelDest \<longrightarrow>
        destLatLng (snd (map_click pf e s)) = Some e
        \<and> routeLine (snd (map_click pf e s)) = routeLine s)
   \<and> (routeLine s = None \<longrightarrow> (\<forall>ev\<in>set evs. is_preview_settled ev = False) \<longrightarrow>
        routeLine (run pf s evs) = None)"
proof -
  have reset: "infraMode s = None \<longrightarrow> destLatLng s \<noteq> None \<longrightarrow> selecting s \<noteq> Some SelDest \<longrightarrow>
        sourceLatLng (snd (map_click pf e s)) = Some e
        \<and> destLatLng (snd (map_click pf e s)) = None
        \<and> routeLine (snd (map_click pf e s)) = None"
    by (auto simp add: map_click_def Let_def)
  have dest: "infraMode s = None \<longrightarrow> selecting s = Some SelDest \<longrightarrow>
        destLatLng (snd (map_click pf e s)) = Some e
        \<and> routeLine (snd (map_click pf e s)) = routeLine s"
    by (simp add: map_click_def Let_def split: option.splits)
  have clear: "routeLine (clearRouteSelection s) = None
      \<and> sourceLatLng (clearRouteSelection s) = None \<and> destLatLng (clearRouteSelection s) = None"
    by (simp add: clearRouteSelection_def)
  show ?thesis
    using map_click_routeLine [of pf e s] reset dest clear run_keeps_no_preview [of s evs pf]
    by blast
qed

text \<open>
  With source \<open>(1, 2)\<close>, destination \<open>(3, 4)\<close> and the preview drawn, a click at
  \<open>(5, 6)\<close> removes the preview; and a run of seven buttons and clicks from the initial
  state draws none.
\<close>

theorem C4_preview_cleared_witness:
  "routeLine (run parseFloat_sample sample_state
        [MapClick (LatLng 1 2), MapClick (LatLng 3 4), PreviewSettled (Resolved sample_reply)])
     = Some [(1, 2), (3, 4)]
   \<and> routeLine (snd (map_click parseFloat_sample (LatLng 5 6)
        (run parseFloat_sample sample_state
          [MapClick (LatLng 1 2), MapClick (LatLng 3 4), PreviewSettled (Resolved sample_reply)])))
     = None
   \<and> routeLine (run parseFloat_sample sample_state
        [MapClick (LatLng 1 2), MapClick (LatLng 3 4), SelectDestBtn, MapClick (LatLng 5 6),
         ClearRouteBtn, InfraModeBtn (Some Toll), MapClick (LatLng 7 8)]) = None"
proof -
  let ?s = "run parseFloat_sample sample_state
          [MapClick (LatLng 1 2), MapClick (LatLng 3 4), PreviewSettled (Resolved sample_reply)]"
  have a: "infraMode ?s = None" "destLatLng ?s \<noteq> None" "selecting ?s \<noteq> Some SelDest"
    "routeLine ?s = Some [(1, 2), (3, 4)]"
    by (simp_all add: run_def map_click_def Let_def sample_state_def init_state_def
        sample_reply_def swap_points_def)
  have b: "routeLine sample_state = None"
    by (simp add: sample_state_def init_state_def)
  have c: "\<forall>ev\<in>set [MapClick (LatLng 1 2), MapClick (LatLng 3 4), SelectDestBtn, MapClick (LatLng 5 6),
         ClearRouteBtn, InfraModeBtn (Some Toll), MapClick (LatLng 7 8)]. is_preview_settled ev = False"
    by simp
  show ?thesis
    using C4_preview_cleared [of parseFloat_sample "LatLng 5 6" ?s "[]"]
      C4_preview_cleared [of parseFloat_sample "LatLng 5 6" sample_state
        "[MapClick (LatLng 1 2), MapClick (LatLng 3 4), SelectDestBtn, MapClick (LatLng 5 6),
         ClearRouteBtn, InfraModeBtn (Some Toll), MapClick (LatLng 7 8)]"]
      a b c
    by blast
qed

text \<open>
  Claim C5, refuted. The gateway button followed by the source button leaves placement
  mode \<open>gateway\<close> and selection mode \<open>source\<close> set together, with both buttons shown
  active; the destination button followed by the toll button does the same in the
  other order.
\<close>

theorem C5_modes_counterexample:
  "infraMode (run parseFloat_sample sample_state [InfraModeBtn (Some Gateway), SelectSourceBtn])
     = Some Gateway
   \<and> selecting (run parseFloat_sample sample_state [InfraModeBtn (Some Gateway), SelectSourceBtn])
     = Some SelSource
   \<and> gatewayBtnActive (run parseFloat_sample sample_state [InfraModeBtn (Some Gateway), SelectSourceBtn])
   \<and> selectSourceBtnActive (run parseFloat_sample sample_state [InfraModeBtn (Some Gateway), SelectSourceBtn])
   \<and> selecting (run parseFloat_sample sample_state [SelectDestBtn, InfraModeBtn (Some Toll)])
     = Some SelDest
   \<and> infraMode (run parseFloat_sample sample_state [SelectDestBtn, InfraModeBtn (Some Toll)])
     = Some Toll"
  by (simp add: run_def setInfraMode_def selectSourceBtn_click_def selectDestBtn_click_def
      sample_state_def init_state_def)

text \<open>
  Claim C5 as amended. The selection mode and the placement mode are two variables and
  no handler that sets one writes the other: the source and destination buttons keep
  the placement mode, and \<open>setInfraMode\<close> keeps the selection mode. The two selection
  modes exclude each other, being values of one variable. While a placement mode is
  set, a map click is a placement: it keeps both modes and the selection. Without a
  placement mode, a click whose handler completes ends with no selection mode.
\<close>

theorem C5_modes_independent:
  "infraMode (selectSourceBtn_click s) = infraMode s
   \<and> infraMode (selectDestBtn_click s) = infraMode s
   \<and> selecting (selectSourceBtn_click s) = Some SelSource
   \<and> selecting (selectDestBtn_click s) = Some SelDest
   \<and> selecting (setInfraMode m s) = selecting s
   \<and> infraMode (setInfraMode m s) = m
   \<and> (infraMode s = Some k \<longrightarrow>
        selecting (snd (map_click pf e s)) = selecting s
        \<and> infraMode (snd (map_click pf e s)) = Some k
        \<and> sourceLatLng (snd (map_click pf e s)) = sourceLatLng s
        \<and> destLatLng (snd (map_click pf e s)) = destLatLng s)
   \<and> (infraMode s = None \<longrightarrow> fst (map_click pf e s) = None \<longrightarrow>
        selecting (snd (map_click pf e s)) = None \<and> infraMode (snd (map_click pf e s)) = None)"
  by (auto simp add: selectSourceBtn_click_def selectDestBtn_click_def setInfraMode_def
      map_click_def Let_def split: option.splits if_splits)

text \<open>
  A click in the state with both modes set keeps both; a click after the source button
  alone ends with no selection mode.
\<close>

theorem C5_modes_independent_witness:
  "selecting (snd (map_click parseFloat_sample (LatLng 1 2)
      (selectSourceBtn_click (setInfraMode (Some Gateway) sample_state)))) = Some SelSource
   \<and> infraMode (snd (map_click parseFloat_sample (LatLng 1 2)
      (selectSourceBtn_click (setInfraMode (Some Gateway) sample_state)))) = Some Gateway
   \<and> selecting (snd (map_click parseFloat_sample (LatLng 1 2) (selectSourceBtn_click sample_state))) = None"
proof -
  have g: "infraMode (selectSourceBtn_click (setInfraMode (Some Gateway) sample_state)) = Some Gateway"
    by (simp add: selectSourceBtn_click_def setInfraMode_def)
  have n: "infraMode (selectSourceBtn_click sample_state) = None"
    by (simp add: selectSourceBtn_click_def sample_state_def init_state_def)
  have ok: "fst (map_click parseFloat_sample (LatLng 1 2) (selectSourceBtn_click sample_state)) = None"
    by (simp add: map_click_def selectSourceBtn_click_def sample_state_def init_state_def Let_def)
  show ?thesis
    using C5_modes_independent [of "selectSourceBtn_click (setInfraMode (Some Gateway) sample_state)"
        "Some Gateway" Gateway parseFloat_sample "LatLng 1 2"]
      C5_modes_independent [of "selectSourceBtn_click sample_state" None Gateway parseFloat_sample "LatLng 1 2"]
      g n ok
    by (simp add: selectSourceBtn_click_def setInfraMode_def)
qed

text \<open>
  Claim C6. In placement mode \<open>k\<close> a map click at \<open>e\<close> does not throw and changes
  nothing but the log of requests, to which it adds exactly one request: one of kind
  \<open>k\<close> with the longitude and latitude of \<open>e\<close>. The mode, the selection mode, the source
  and the destination are therefore as before. A second click at \<open>e'\<close> adds a second
  request of kind \<open>k\<close>, and the mode is \<open>k\<close> after each click.
\<close>

theorem C6_placement_click:
  assumes "infraMode s = Some k"
  shows "map_click pf e s = (None, s\<lparr>sent := sent s @ [place_request pf k e s]\<rparr>)
    \<and> request_kind (place_request pf k e s) = Some k
    \<and> req_lon (place_request pf k e s) = lng e
    \<and> req_lat (place_request pf k e s) = lat e
    \<and> map_click pf e' (snd (map_click pf e s)) =
        (None, s\<lparr>sent := sent s @ [place_request pf k e s, place_request pf k e' s]\<rparr>)
    \<and> infraMode (snd (map_click pf e s)) = Some k
    \<and> infraMode (snd (map_click pf e' (snd (map_click pf e s)))) = Some k"
proof -
  have one: "\<And>t x. infraMode t = Some k \<Longrightarrow>
      map_click pf x t = (None, t\<lparr>sent := sent t @ [place_request pf k x t]\<rparr>)"
    by (simp add: map_click_def)
  have indep: "\<And>x l. place_request pf k x (s\<lparr>sent := l\<rparr>) = place_request pf k x s"
    by (cases k) (simp_all add: radiusVal_def feeVal_def)
  have kind: "request_kind (place_request pf k e s) = Some k
      \<and> req_lon (place_request pf k e s) = lng e \<and> req_lat (place_request pf k e s) = lat e"
    by (cases k) simp_all
  show ?thesis
    using assms kind by (simp add: one indep)
qed

text \<open>
  Two clicks in tower mode, with a radius text that does not parse: two tower requests
  with the default radius, and the state otherwise as it was.
\<close>

theorem C6_placement_click_witness:
  "map_click parseFloat_sample (LatLng 3 4)
      (snd (map_click parseFloat_sample (LatLng 1 2) (setInfraMode (Some Tower) sample_state)))
     = (None, (setInfraMode (Some Tower) sample_state)
          \<lparr>sent := [AddMobileTower 2 1 (JNumber (1 / 100)), AddMobileTower 4 3 (JNumber (1 / 100))]\<rparr>)"
proof -
  have mode: "infraMode (setInfraMode (Some Tower) sample_state) = Some Tower"
    by (simp add: setInfraMode_def)
  have empty: "sent (setInfraMode (Some Tower) sample_state) = []"
    by (simp add: setInfraMode_def sample_state_def init_state_def)
  have radius: "radiusVal parseFloat_sample (setInfraMode (Some Tower) sample_state) = Fin (1 / 100)"
    by (simp add: radiusVal_def setInfraMode_def sample_state_def init_state_def
        parseFloat_sample_def parseFloat_table_def)
  have "map_click parseFloat_sample (LatLng 3 4)
      (snd (map_click parseFloat_sample (LatLng 1 2) (setInfraMode (Some Tower) sample_state)))
     = (None, (setInfraMode (Some Tower) sample_state)
          \<lparr>sent := sent (setInfraMode (Some Tower) sample_state) @
             [place_request parseFloat_sample Tower (LatLng 1 2) (setInfraMode (Some Tower) sample_state),
              place_request parseFloat_sample Tower (LatLng 3 4) (setInfraMode (Some Tower) sample_state)]\<rparr>)"
    using C6_placement_click [OF mode, of parseFloat_sample "LatLng 1 2" "LatLng 3 4"]
    by blast
  then show ?thesis
    by (simp add: empty radius)
qed

text \<open>
  Claim C10, refuted. The fee text \<open>Infinity\<close> parses to a truthy number, yet the
  request carries \<open>null\<close>: the body goes through \<open>JSON.stringify\<close>, which writes a
  number that is not finite as \<open>null\<close>.
\<close>

theorem C10_toll_fee_counterexample:
  "parseFloat_sample ''Infinity'' = PosInf \<and> truthy_num PosInf
   \<and> sent (snd (map_click parseFloat_sample (LatLng 1 2)
        (setInfraMode (Some Toll) (sample_state\<lparr>tollFeeInput := ''Infinity''\<rparr>))))
      = [AddTollGate 2 1 JNull]"
  by (simp add: map_click_def setInfraMode_def sample_state_def init_state_def feeVal_def
      parseFloat_sample_def parseFloat_table_def)

text \<open>
  Claim C10 as amended. A click in toll mode sends one toll request whose fee is the
  parsed fee text when the parse is a finite number other than zero, and \<open>null\<close>
  otherwise: for zero, for \<open>NaN\<close> and for the infinities.
\<close>

theorem C10_toll_fee:
  assumes "infraMode s = Some Toll"
  shows "sent (snd (map_click pf e s)) = sent s @
      [AddTollGate (lng e) (lat e)
         (case pf (tollFeeInput s) of
            Fin r \<Rightarrow> if r = 0 then JNull else JNumber r
          | NaN \<Rightarrow> JNull | PosInf \<Rightarrow> JNull | NegInf \<Rightarrow> JNull)]"
  using assms by (cases "pf (tollFeeInput s)") (simp_all add: map_click_def feeVal_def)

text \<open>The fee text \<open>0\<close> is sent as \<open>null\<close> and the fee text \<open>2.5\<close> as the number.\<close>

theorem C10_toll_fee_witness:
  "sent (snd (map_click parseFloat_sample (LatLng 1 2) (setInfraMode (Some Toll) sample_state)))
     = [AddTollGate 2 1 JNull]
   \<and> sent (snd (map_click parseFloat_sample (LatLng 1 2)
        (setInfraMode (Some Toll) (sample_state\<lparr>tollFeeInput := ''2.5''\<rparr>))))
     = [AddTollGate 2 1 (JNumber (5 / 2))]"
proof -
  have m0: "infraMode (setInfraMode (Some Toll) sample_state) = Some Toll"
    and m1: "infraMode (setInfraMode (Some Toll) (sample_state\<lparr>tollFeeInput := ''2.5''\<rparr>)) = Some Toll"
    by (simp_all add: setInfraMode_def)
  show ?thesis
    using C10_toll_fee [OF m0, of parseFloat_sample "LatLng 1 2"]
      C10_toll_fee [OF m1, of parseFloat_sample "LatLng 1 2"]
    by (simp add: setInfraMode_def sample_state_def init_state_def
        parseFloat_sample_def parseFloat_table_def)
qed

section \<open>Properties of the snapshot handler\<close>

lemma forEach_agent_no_throw:
  assumes "\<forall>a\<in>set as. to_key (agent_id a) \<notin> set object_prototype_names"
  shows "fst (forEach_agent as m ops) = None
    \<and> fst ` set (fst (snd (forEach_agent as m ops))) = fst ` set m \<union> (\<lambda>a. to_key (agent_id a)) ` set as"
  using assms
proof (induction as arbitrary: m ops)
  case Nil
  then show ?case by simp
next
  case (Cons a as)
  then have rest: "\<forall>a\<in>set as. to_key (agent_id a) \<notin> set object_prototype_names"
    and here: "to_key (agent_id a) \<notin> set object_prototype_names"
    by simp_all
  show ?case
    using Cons.IH [OF rest] here
    by (auto simp add: AList.dom_update split: option.splits)
qed

lemma forEach_agent_present:
  assumes "\<forall>a\<in>set as. to_key (agent_id a) \<in> fst ` set m"
  shows "fst (forEach_agent as m ops) = None
    \<and> map fst (fst (snd (forEach_agent as m ops))) = map fst m
    \<and> snd (snd (forEach_agent as m ops)) = ops @ map (\<lambda>a. Update (to_key (agent_id a))) as"
  using assms
proof (induction as arbitrary: m ops)
  case Nil
  then show ?case by simp
next
  case (Cons a as)
  let ?k = "to_key (agent_id a)"
  let ?m = "AList.update ?k (marker_of a) m"
  from Cons.prems have own: "?k \<in> fst ` set m" by simp
  then obtain h where h: "map_of m ?k = Some h"
    using map_of_eq_None_iff [of m ?k] by auto
  have keys: "map fst ?m = map fst m"
    using own by (simp add: AList.update_keys)
  then have "fst ` set ?m = fst ` set m"
    by (metis list.set_map)
  with Cons.prems have rest: "\<forall>a\<in>set as. to_key (agent_id a) \<in> fst ` set ?m"
    by simp
  show ?case
    using Cons.IH [OF rest, of "ops @ [Update ?k]"] h keys by simp
qed

lemma string_id_eq:
  "is_string_id i \<Longrightarrow> (i = IdStr k) = (to_key i = k)"
  by (cases i) simp_all

lemma string_id_key:
  assumes "\<forall>a\<in>set snap. is_string_id (agent_id a)"
  shows "has_id snap k \<longleftrightarrow> k \<in> (\<lambda>a. to_key (agent_id a)) ` set snap"
proof
  assume "has_id snap k"
  then obtain a where "a \<in> set snap" "agent_id a = IdStr k"
    by (auto simp add: has_id_def)
  then show "k \<in> (\<lambda>a. to_key (agent_id a)) ` set snap"
    by force
next
  assume "k \<in> (\<lambda>a. to_key (agent_id a)) ` set snap"
  then obtain a where a: "a \<in> set snap" "to_key (agent_id a) = k"
    by auto
  with assms have "is_string_id (agent_id a)"
    by simp
  with a have "agent_id a = IdStr k"
    by (simp add: string_id_eq)
  with a show "has_id snap k"
    by (force simp add: has_id_def)
qed

lemma keys_filter:
  "fst ` set (filter (\<lambda>kv. P (fst kv)) m) = {k \<in> fst ` set m. P k}"
  by (auto simp add: image_iff)

lemma ws_onmessage_string_ids:
  assumes str: "\<forall>a\<in>set snap. is_string_id (agent_id a)"
    and names: "\<forall>a\<in>set snap. to_key (agent_id a) \<notin> set object_prototype_names"
  shows "thrown (ws_onmessage snap m) = None"
    and "rendered (markers_after (ws_onmessage snap m)) = (\<lambda>a. to_key (agent_id a)) ` set snap"
    and "IdStr ` rendered (markers_after (ws_onmessage snap m)) = agent_id ` set snap"
proof -
  obtain m' ops' where fe: "forEach_agent snap m [] = (None, m', ops')"
    and keys: "fst ` set m' = fst ` set m \<union> (\<lambda>a. to_key (agent_id a)) ` set snap"
    using forEach_agent_no_throw [OF names, of m "[]"]
    by (metis fst_conv snd_conv surj_pair)
  show t: "thrown (ws_onmessage snap m) = None"
    by (simp add: thrown_def ws_onmessage_def fe)
  have after: "markers_after (ws_onmessage snap m) = filter (\<lambda>kv. has_id snap (fst kv)) m'"
    by (simp add: markers_after_def ws_onmessage_def fe)
  have "rendered (markers_after (ws_onmessage snap m)) = {k \<in> fst ` set m'. has_id snap k}"
    unfolding after rendered_def by (simp only: set_map keys_filter)
  also have "\<dots> = (\<lambda>a. to_key (agent_id a)) ` set snap"
    using keys string_id_key [OF str] by blast
  finally show r: "rendered (markers_after (ws_onmessage snap m)) = (\<lambda>a. to_key (agent_id a)) ` set snap" .
  have inv: "\<And>i. is_string_id i \<Longrightarrow> IdStr (to_key i) = i"
    by (metis string_id_eq)
  have "IdStr ` (\<lambda>a. to_key (agent_id a)) ` set snap = agent_id ` set snap"
    using str inv by (force simp add: image_iff)
  then show "IdStr ` rendered (markers_after (ws_onmessage snap m)) = agent_id ` set snap"
    unfolding r .
qed

lemma ws_onmessage_empty:
  "ws_onmessage [] m = (None, [], map (\<lambda>kv. Destroy (fst kv)) m)"
  by (simp add: ws_onmessage_def has_id_def)

lemma ws_onmessage_again:
  assumes str: "\<forall>a\<in>set snap. is_string_id (agent_id a)"
    and names: "\<forall>a\<in>set snap. to_key (agent_id a) \<notin> set object_prototype_names"
  shows "thrown (ws_onmessage snap (markers_after (ws_onmessage snap m))) = None"
    and "ops_of (ws_onmessage snap (markers_after (ws_onmessage snap m)))
     = map (\<lambda>a. Update (to_key (agent_id a))) snap"
    and "map fst (markers_after (ws_onmessage snap (markers_after (ws_onmessage snap m))))
     = map fst (markers_after (ws_onmessage snap m))"
proof -
  define m1 where "m1 = markers_after (ws_onmessage snap m)"
  have r1: "fst ` set m1 = (\<lambda>a. to_key (agent_id a)) ` set snap"
    using ws_onmessage_string_ids(2) [OF str names, of m] by (simp add: m1_def rendered_def)
  then have present: "\<forall>a\<in>set snap. to_key (agent_id a) \<in> fst ` set m1"
    by blast
  obtain m2 where fe: "forEach_agent snap m1 [] = (None, m2, map (\<lambda>a. Update (to_key (agent_id a))) snap)"
    and keys: "map fst m2 = map fst m1"
    using forEach_agent_present [OF present, of "[]"]
    by (metis append_Nil fst_conv snd_conv surj_pair)
  have "fst ` set m2 = fst ` set m1"
    using keys by (metis list.set_map)
  then have all: "\<forall>kv\<in>set m2. has_id snap (fst kv)"
    using r1 string_id_key [OF str] by blast
  then have keep: "filter (\<lambda>kv. has_id snap (fst kv)) m2 = m2"
    and drop: "filter (\<lambda>kv. \<not> has_id snap (fst kv)) m2 = []"
    by (simp_all add: filter_empty_conv)
  have res: "ws_onmessage snap m1 = (None, m2, map (\<lambda>a. Update (to_key (agent_id a))) snap)"
    by (simp add: ws_onmessage_def fe keep drop)
  show "thrown (ws_onmessage snap (markers_after (ws_onmessage snap m))) = None"
    unfolding m1_def [symmetric] by (simp add: res thrown_def)
  show "ops_of (ws_onmessage snap (markers_after (ws_onmessage snap m)))
     = map (\<lambda>a. Update (to_key (agent_id a))) snap"
    unfolding m1_def [symmetric] by (simp add: res ops_of_def)
  show "map fst (markers_after (ws_onmessage snap (markers_after (ws_onmessage snap m))))
     = map fst (markers_after (ws_onmessage snap m))"
    unfolding m1_def [symmetric] by (simp add: res markers_after_def keys)
qed

lemma apply_all_snoc:
  "apply_all m (snaps @ [snap]) = markers_after (ws_onmessage snap (apply_all m snaps))"
  by (simp add: apply_all_def)

text \<open>
  For string identifiers the handler keeps handles and snapshot in step. Let the
  latest snapshot have string identifiers only, none of them the name of a member
  that every object inherits. Then, whatever the handles before and whatever
  snapshots were applied before, the handler does not throw, and right after it the
  keys that hold a handle are exactly the identifiers of the snapshot. An empty
  snapshot leaves no handle, and destroys each handle there was.
\<close>

theorem string_ids_rendered:
  assumes str: "\<forall>a\<in>set snap. is_string_id (agent_id a)"
    and names: "\<forall>a\<in>set snap. to_key (agent_id a) \<notin> set object_prototype_names"
  shows "thrown (ws_onmessage snap (apply_all m0 snaps)) = None
    \<and> rendered (apply_all m0 (snaps @ [snap])) = (\<lambda>a. to_key (agent_id a)) ` set snap
    \<and> IdStr ` rendered (apply_all m0 (snaps @ [snap])) = agent_id ` set snap
    \<and> rendered (apply_all m0 (snaps @ [[]])) = {}
    \<and> ws_onmessage [] m = (None, [], map (\<lambda>kv. Destroy (fst kv)) m)"
  unfolding apply_all_snoc
  using ws_onmessage_string_ids [OF str names, of "apply_all m0 snaps"]
  by (simp add: ws_onmessage_empty markers_after_def rendered_def)

text \<open>
  Three snapshots in a row, the second one empty: after the third, the handles are
  those of its two agents.
\<close>

theorem string_ids_rendered_example:
  "IdStr ` rendered (apply_all [] [[agent_b], [], [agent_a, agent_b]]) = {IdStr ''a1'', IdStr ''b2''}
   \<and> thrown (ws_onmessage [agent_a, agent_b] (apply_all [] [[agent_b], []])) = None"
proof -
  have str: "\<forall>a\<in>set [agent_a, agent_b]. is_string_id (agent_id a)"
    by (simp add: agent_a_def agent_b_def)
  have names: "\<forall>a\<in>set [agent_a, agent_b]. to_key (agent_id a) \<notin> set object_prototype_names"
    by (simp add: agent_a_def agent_b_def object_prototype_names_def)
  have ids: "agent_id ` set [agent_a, agent_b] = {IdStr ''a1'', IdStr ''b2''}"
    by (simp add: agent_a_def agent_b_def)
  show ?thesis
    using string_ids_rendered [OF str names, of "[]" "[[agent_b], []]"] ids by simp blast
qed

text \<open>
  For such a snapshot, applying it to the handles its own application left does not
  throw and only updates: one update per agent of the snapshot, in their order, no
  creation and no destruction, and the keys that hold a handle are the same in the
  same order.
\<close>

theorem string_ids_reapplied:
  assumes str: "\<forall>a\<in>set snap. is_string_id (agent_id a)"
    and names: "\<forall>a\<in>set snap. to_key (agent_id a) \<notin> set object_prototype_names"
  shows "thrown (ws_onmessage snap (markers_after (ws_onmessage snap m))) = None
    \<and> ops_of (ws_onmessage snap (markers_after (ws_onmessage snap m)))
        = map (\<lambda>a. Update (to_key (agent_id a))) snap
    \<and> filter is_create (ops_of (ws_onmessage snap (markers_after (ws_onmessage snap m)))) = []
    \<and> filter is_destroy (ops_of (ws_onmessage snap (markers_after (ws_onmessage snap m)))) = []
    \<and> map fst (markers_after (ws_onmessage snap (markers_after (ws_onmessage snap m))))
        = map fst (markers_after (ws_onmessage snap m))"
proof -
  have thr: "thrown (ws_onmessage snap (markers_after (ws_onmessage snap m))) = None"
    by (rule ws_onmessage_again(1) [OF str names])
  have ops: "ops_of (ws_onmessage snap (markers_after (ws_onmessage snap m)))
        = map (\<lambda>a. Update (to_key (agent_id a))) snap"
    by (rule ws_onmessage_again(2) [OF str names])
  have "filter is_create (map (\<lambda>a. Update (to_key (agent_id a))) snap) = []"
    and "filter is_destroy (map (\<lambda>a. Update (to_key (agent_id a))) snap) = []"
    by (simp_all add: filter_empty_conv)
  then show ?thesis
    using ops thr ws_onmessage_again(3) [OF str names, of m] by simp
qed

text \<open>The snapshot of two agents applied twice: the second time, two updates.\<close>

theorem string_ids_reapplied_example:
  "ops_of (ws_onmessage [agent_a, agent_b] (markers_after (ws_onmessage [agent_a, agent_b] [])))
     = [Update ''a1'', Update ''b2'']
   \<and> map fst (markers_after (ws_onmessage [agent_a, agent_b]
        (markers_after (ws_onmessage [agent_a, agent_b] []))))
     = map fst (markers_after (ws_onmessage [agent_a, agent_b] []))"
proof -
  have str: "\<forall>a\<in>set [agent_a, agent_b]. is_string_id (agent_id a)"
    by (simp add: agent_a_def agent_b_def)
  have names: "\<forall>a\<in>set [agent_a, agent_b]. to_key (agent_id a) \<notin> set object_prototype_names"
    by (simp add: agent_a_def agent_b_def object_prototype_names_def)
  have keys: "map (\<lambda>a. Update (to_key (agent_id a))) [agent_a, agent_b] = [Update ''a1'', Update ''b2'']"
    by (simp add: agent_a_def agent_b_def)
  show ?thesis
    using string_ids_reapplied [OF str names, of "[]"] keys by simp
qed

text \<open>
  Claim C1: after a snapshot is applied, the identifiers that hold a live handle are
  exactly the identifiers of the snapshot. The handler breaks this for identifiers
  that are not strings. A snapshot whose one agent has the number \<open>1\<close> as identifier
  leaves no handle: the circle is stored under the key \<open>"1"\<close>, the set of current
  identifiers holds the number, and the closing loop, which asks the set for the
  string, removes the circle it has just created. It also breaks it for an agent
  whose identifier is \<open>"constructor"\<close>: the handler throws before it creates anything
  for that agent and before the closing loop, so the stale handle \<open>a1\<close> stays.
\<close>

theorem C1_numeric_id_not_rendered:
  "ws_onmessage [agent_1] [] = (None, [], [Create ''1'', Destroy ''1''])
   \<and> rendered (markers_after (ws_onmessage [agent_1] [])) = {}
   \<and> agent_id ` set [agent_1] = {IdNum 1}
   \<and> ws_onmessage [agent_c] [(''a1'', marker_of agent_a)]
      = (Some TypeError, [(''a1'', marker_of agent_a)], [])"
  by (simp add: ws_onmessage_def agent_1_def agent_c_def int_key_def nat_digits.simps
      object_prototype_names_def has_id_def rendered_def markers_after_def)

text \<open>
  Claim C8: applying the snapshot that was just applied creates and destroys nothing.
  The handler breaks this for the snapshot with the numeric identifier \<open>1\<close>: applied
  to the handles its own application left, it creates a circle and destroys it again.
\<close>

theorem C8_numeric_id_churn:
  "ops_of (ws_onmessage [agent_1] (markers_after (ws_onmessage [agent_1] [])))
     = [Create ''1'', Destroy ''1'']
   \<and> filter is_create (ops_of (ws_onmessage [agent_1] (markers_after (ws_onmessage [agent_1] []))))
     = [Create ''1'']
   \<and> filter is_destroy (ops_of (ws_onmessage [agent_1] (markers_after (ws_onmessage [agent_1] []))))
     = [Destroy ''1'']"
  by (simp add: ws_onmessage_def agent_1_def int_key_def nat_digits.simps
      object_prototype_names_def has_id_def ops_of_def markers_after_def)

section \<open>Properties of the density layer\<close>

lemma floor_5_percent: "\<lfloor>5 / 100 * real n\<rfloor> = int (n div 20)"
proof -
  have "5 / 100 * real n = real n / real 20" by simp
  then show ?thesis by (simp only: floor_divide_of_nat_eq)
qed

lemma floor_95_percent: "\<lfloor>95 / 100 * real n\<rfloor> = int ((19 * n) div 20)"
proof -
  have "95 / 100 * real n = real (19 * n) / real 20" by simp
  then show ?thesis by (simp only: floor_divide_of_nat_eq)
qed

lemma q_5_percent:
  assumes "ws \<noteq> []"
  shows "q ws (5 / 100) = ws ! ((length ws - 1) div 20)"
proof -
  have len: "real (length ws) - 1 = real (length ws - 1)" "int (length ws) - 1 = int (length ws - 1)"
    using assms by (simp_all add: Suc_leI of_nat_diff)
  have "(length ws - 1) div 20 \<le> length ws - 1" by simp
  then show ?thesis
    unfolding q_def len floor_5_percent by (simp add: min_def max_def)
qed

lemma q_95_percent:
  assumes "ws \<noteq> []"
  shows "q ws (95 / 100) = ws ! ((19 * (length ws - 1)) div 20)"
proof -
  have len: "real (length ws) - 1 = real (length ws - 1)" "int (length ws) - 1 = int (length ws - 1)"
    using assms by (simp_all add: Suc_leI of_nat_diff)
  have "(19 * (length ws - 1)) div 20 \<le> length ws - 1" by simp
  then show ?thesis
    unfolding q_def len floor_95_percent by (simp add: min_def max_def)
qed

lemma lo_hi_indices:
  assumes "tiles \<noteq> []"
  shows "lo_of tiles = sort (map weight tiles) ! ((length tiles - 1) div 20)"
    and "hi_of tiles = sort (map weight tiles) ! ((19 * (length tiles - 1)) div 20)"
proof -
  have ne: "sort (map weight tiles) \<noteq> []"
    using assms by (metis length_0_conv length_map length_sort)
  show "lo_of tiles = sort (map weight tiles) ! ((length tiles - 1) div 20)"
    unfolding lo_of_def by (simp only: q_5_percent [OF ne] length_sort length_map)
  show "hi_of tiles = sort (map weight tiles) ! ((19 * (length tiles - 1)) div 20)"
    unfolding hi_of_def by (simp only: q_95_percent [OF ne] length_sort length_map)
qed

lemma hi_index_in_range:
  assumes "tiles \<noteq> []"
  shows "(19 * (length tiles - 1)) div 20 < length tiles"
proof -
  have "(19 * (length tiles - 1)) div 20 \<le> length tiles - 1" by simp
  moreover have "length tiles - 1 < length tiles" using assms by simp
  ultimately show ?thesis by simp
qed

lemma lo_le_hi:
  assumes "tiles \<noteq> []"
  shows "lo_of tiles \<le> hi_of tiles"
proof -
  have "(length tiles - 1) div 20 \<le> (19 * (length tiles - 1)) div 20" by simp
  moreover have "(19 * (length tiles - 1)) div 20 < length (sort (map weight tiles))"
    using hi_index_in_range [OF assms] by simp
  ultimately show ?thesis
    unfolding lo_hi_indices [OF assms] by (simp add: sorted_nth_mono)
qed

lemma range_of_pos:
  assumes "tiles \<noteq> []"
  shows "0 < range_of tiles"
  using lo_le_hi [OF assms] by (simp add: range_of_def)

lemma normalized_bounds: "0 \<le> normalized a r w \<and> normalized a r w \<le> 1"
  by (simp add: normalized_def)

lemma normalized_low:
  assumes "0 < r" "w \<le> a"
  shows "normalized a r w = 0"
proof -
  have "(w - a) / r \<le> 0"
    using assms by (simp add: divide_le_0_iff)
  then show ?thesis
    by (simp add: normalized_def)
qed

lemma normalized_high:
  assumes "lo_of tiles < hi_of tiles" "hi_of tiles \<le> w"
  shows "normalized (lo_of tiles) (range_of tiles) w = 1"
proof -
  have r: "range_of tiles = hi_of tiles - lo_of tiles" "0 < hi_of tiles - lo_of tiles"
    using assms by (simp_all add: range_of_def)
  have "1 \<le> (w - lo_of tiles) / (hi_of tiles - lo_of tiles)"
    using assms r by (simp add: le_divide_eq)
  then show ?thesis
    by (simp add: normalized_def r)
qed

lemma normalized_flat:
  assumes "lo_of tiles = hi_of tiles"
  shows "normalized (lo_of tiles) (range_of tiles) w = max 0 (min 1 (w - hi_of tiles))"
  using assms by (simp add: normalized_def range_of_def)

lemma draw_tile_norm:
  "\<forall>sh\<in>set (draw_tile h3 a r t). shape_norm sh = max 0 (min 1 ((weight t - a) / r))"
  by (auto simp add: draw_tile_def normalized_def split: option.splits)

lemma weights_1_100: "sort (map weight tiles_1_100) = map real [1..<101]"
proof -
  have w: "map weight tiles_1_100 = map real [1..<101]"
    by (simp add: tiles_1_100_def circle_tile_def comp_def)
  have "sorted (map real [1..<101])"
    by (simp add: sorted_map)
  then show ?thesis
    unfolding w by (rule sorted_sort_id)
qed

lemma lo_hi_1_100: "lo_of tiles_1_100 = 5" "hi_of tiles_1_100 = 95"
proof -
  have ne: "tiles_1_100 \<noteq> []" and len: "length tiles_1_100 = 100"
    by (simp_all add: tiles_1_100_def)
  show "lo_of tiles_1_100 = 5" "hi_of tiles_1_100 = 95"
    unfolding lo_hi_indices [OF ne] weights_1_100 len by simp_all
qed

text \<open>
  Claim C7, refuted in its last part. For two cells of weight \<open>0\<close> and one of weight
  \<open>0.5\<close> both percentile values are \<open>0\<close>, the range falls back to \<open>1\<close>, and the
  weight \<open>0.5\<close>, which lies outside \<open>[lo, hi]\<close>, is normalised to \<open>0.5\<close>: neither
  \<open>0\<close> nor \<open>1\<close>.
\<close>

theorem C7_saturation_counterexample:
  "lo_of tiles_flat = 0 \<and> hi_of tiles_flat = 0 \<and> range_of tiles_flat = 1
   \<and> normalized (lo_of tiles_flat) (range_of tiles_flat) (1 / 2) = 1 / 2
   \<and> drawHexes None tiles_flat (Some [])
      = Some [Circle 23 75 50 (68, 68, 68) 0, Circle 23 75 150 (255, 235, 59) (1 / 2),
              Circle 23 75 50 (68, 68, 68) 0]"
  by (simp add: drawHexes_def tiles_flat_def circle_tile_def lo_of_def hi_of_def range_of_def q_def
      draw_tile_def truthy_text_def truthy_coord_def normalized_def colorForWeight_def
      js_round_def Let_def)

text \<open>
  Claim C7 as amended. For a list of \<open>N > 0\<close> tiles, \<open>lo\<close> and \<open>hi\<close> are the elements
  of the ascending weights at the indices \<open>\<lfloor>0.05 (N - 1)\<rfloor>\<close> and \<open>\<lfloor>0.95 (N - 1)\<rfloor>\<close>,
  which lie below \<open>N\<close>, so that the clamping of the index never acts; \<open>lo \<le> hi\<close>, and
  the range, \<open>hi - lo\<close> or \<open>1\<close> when that is zero, is positive. \<open>drawHexes\<close> replaces the
  layer by the shapes of the tiles on that scale, and every shape drawn for a tile
  carries \<open>clamp((weight - lo) / range, 0, 1)\<close>, a value in \<open>[0, 1]\<close>. A weight of at
  most \<open>lo\<close> is normalised to \<open>0\<close>. A weight of at least \<open>hi\<close> is normalised to \<open>1\<close>
  when \<open>lo < hi\<close>; when \<open>lo = hi\<close> it is normalised to \<open>clamp(weight - hi, 0, 1)\<close>. For
  the weights \<open>1\<close> to \<open>100\<close>, \<open>lo = 5\<close> and \<open>hi = 95\<close>, weight \<open>1\<close> is normalised to
  \<open>0\<close> and weight \<open>100\<close> to \<open>1\<close>.
\<close>

theorem C7_percentile_normalisation:
  assumes "tiles \<noteq> []"
  shows "lo_of tiles = sort (map weight tiles) ! nat \<lfloor>5 / 100 * real (length tiles - 1)\<rfloor>
    \<and> hi_of tiles = sort (map weight tiles) ! nat \<lfloor>95 / 100 * real (length tiles - 1)\<rfloor>
    \<and> nat \<lfloor>5 / 100 * real (length tiles - 1)\<rfloor> \<le> nat \<lfloor>95 / 100 * real (length tiles - 1)\<rfloor>
    \<and> nat \<lfloor>95 / 100 * real (length tiles - 1)\<rfloor> < length tiles
    \<and> lo_of tiles \<le> hi_of tiles
    \<and> 0 < range_of tiles
    \<and> drawHexes h3 tiles (Some old)
        = Some (concat (map (draw_tile h3 (lo_of tiles) (range_of tiles)) tiles))
    \<and> (\<forall>t\<in>set tiles. \<forall>sh\<in>set (draw_tile h3 (lo_of tiles) (range_of tiles) t).
          shape_norm sh = max 0 (min 1 ((weight t - lo_of tiles) / range_of tiles)))
    \<and> 0 \<le> normalized (lo_of tiles) (range_of tiles) w
    \<and> normalized (lo_of tiles) (range_of tiles) w \<le> 1
    \<and> (w \<le> lo_of tiles \<longrightarrow> normalized (lo_of tiles) (range_of tiles) w = 0)
    \<and> (lo_of tiles < hi_of tiles \<longrightarrow> hi_of tiles \<le> w \<longrightarrow>
          normalized (lo_of tiles) (range_of tiles) w = 1)
    \<and> (lo_of tiles = hi_of tiles \<longrightarrow>
          normalized (lo_of tiles) (range_of tiles) w = max 0 (min 1 (w - hi_of tiles)))
    \<and> lo_of tiles_1_100 = 5 \<and> hi_of tiles_1_100 = 95
    \<and> normalized (lo_of tiles_1_100) (range_of tiles_1_100) 1 = 0
    \<and> normalized (lo_of tiles_1_100) (range_of tiles_1_100) 100 = 1"
proof -
  have idx: "nat \<lfloor>5 / 100 * real (length tiles - 1)\<rfloor> = (length tiles - 1) div 20"
    "nat \<lfloor>95 / 100 * real (length tiles - 1)\<rfloor> = (19 * (length tiles - 1)) div 20"
    by (simp_all only: floor_5_percent floor_95_percent nat_int)
  have ord: "(length tiles - 1) div 20 \<le> (19 * (length tiles - 1)) div 20"
    by simp
  have draw: "drawHexes h3 tiles (Some old)
        = Some (concat (map (draw_tile h3 (lo_of tiles) (range_of tiles)) tiles))"
    using assms by (simp add: drawHexes_def Let_def)
  have ex0: "normalized (lo_of tiles_1_100) (range_of tiles_1_100) 1 = 0"
    by (simp add: lo_hi_1_100 range_of_def normalized_def)
  have ex1: "normalized (lo_of tiles_1_100) (range_of tiles_1_100) 100 = 1"
    by (simp add: lo_hi_1_100 range_of_def normalized_def)
  show ?thesis
    unfolding idx
    using lo_hi_indices [OF assms] ord hi_index_in_range [OF assms] lo_le_hi [OF assms]
      range_of_pos [OF assms] draw draw_tile_norm [of h3 "lo_of tiles" "range_of tiles"]
      normalized_bounds [of "lo_of tiles" "range_of tiles" w]
      normalized_low [OF range_of_pos [OF assms], of w "lo_of tiles"]
      normalized_high [of tiles w] normalized_flat [of tiles w] lo_hi_1_100 ex0 ex1
    by blast
qed

text \<open>
  Three tiles of weights \<open>4\<close>, \<open>1\<close> and \<open>2\<close>: \<open>lo = 1\<close>, \<open>hi = 2\<close>, weight \<open>4\<close> is
  normalised to \<open>1\<close> and weight \<open>1\<close> to \<open>0\<close>.
\<close>

theorem C7_percentile_normalisation_witness:
  "lo_of tiles_small = 1 \<and> hi_of tiles_small = 2
   \<and> normalized (lo_of tiles_small) (range_of tiles_small) 4 = 1
   \<and> normalized (lo_of tiles_small) (range_of tiles_small) 1 = 0"
proof -
  have ne: "tiles_small \<noteq> []" and len: "length tiles_small = 3"
    by (simp_all add: tiles_small_def)
  have srt: "sort (map weight tiles_small) = [1, 2, 4]"
    by (simp add: tiles_small_def circle_tile_def)
  note at4 = C7_percentile_normalisation [OF ne, of None "[]" 4]
  note at1 = C7_percentile_normalisation [OF ne, of None "[]" 1]
  from at4 have "lo_of tiles_small
      = sort (map weight tiles_small) ! nat \<lfloor>5 / 100 * real (length tiles_small - 1)\<rfloor>"
    by blast
  then have lo: "lo_of tiles_small = 1"
    by (simp add: srt len)
  from at4 have "hi_of tiles_small
      = sort (map weight tiles_small) ! nat \<lfloor>95 / 100 * real (length tiles_small - 1)\<rfloor>"
    by blast
  then have hi: "hi_of tiles_small = 2"
    by (simp add: srt len)
  from at4 have "lo_of tiles_small < hi_of tiles_small \<longrightarrow> hi_of tiles_small \<le> 4 \<longrightarrow>
      normalized (lo_of tiles_small) (range_of tiles_small) 4 = 1"
    by blast
  then have top: "normalized (lo_of tiles_small) (range_of tiles_small) 4 = 1"
    by (simp add: lo hi)
  from at1 have "1 \<le> lo_of tiles_small \<longrightarrow>
      normalized (lo_of tiles_small) (range_of tiles_small) 1 = 0"
    by blast
  then have bottom: "normalized (lo_of tiles_small) (range_of tiles_small) 1 = 0"
    by (simp add: lo)
  show ?thesis
    using lo hi top bottom by blast
qed

section \<open>Failed requests\<close>

text \<open>
  Claim C9, refuted. A stats reply with one gateway draws its marker; the next stats
  request fails, and the marker is gone: the layers are cleared before the handler
  looks at what the request gave.
\<close>

theorem C9_failed_stats_counterexample:
  "gatewaysLayer (run parseFloat_sample sample_state
        [InfraStatsSettled (Some \<lparr>gateways = Some [(1, 2)], mobile_towers = None, toll_gates = None\<rparr>)])
     = [CircleMarker 1 2 7]
   \<and> gatewaysLayer (run parseFloat_sample sample_state
        [InfraStatsSettled (Some \<lparr>gateways = Some [(1, 2)], mobile_towers = None, toll_gates = None\<rparr>),
         InfraStatsSettled None])
     = []"
  by (simp add: run_def loadInfrastructure_settled_def clearInfraLayers_def or_empty_def Let_def)

text \<open>
  Claim C9 as amended. A failed density fetch (a rejected request, a response that is
  not \<open>ok\<close>, a body that is not JSON) leaves the density layer as it was and sets the
  status line to the error's message, where it stays until the next run. A failed
  route-preview request changes nothing and shows nothing. A failed stats request
  empties the three infrastructure layers and changes nothing else: no status line is
  written.
\<close>

theorem C9_failed_requests:
  "(is_failure f \<longrightarrow> runPrediction h3 f v = v\<lparr>status := StatusError (failure_message f)\<rparr>)
   \<and> (is_failure f \<longrightarrow> hexLayer (runPrediction h3 f v) = hexLayer v)
   \<and> preview_settled Rejected s = s
   \<and> loadInfrastructure_settled None s = s\<lparr>gatewaysLayer := [], towerLayer := [], tollLayer := []\<rparr>"
  by (cases f) (simp_all add: loadInfrastructure_settled_def clearInfraLayers_def)

text \<open>
  A rejected density fetch over a layer with one circle keeps the circle; a failed
  stats request over a drawn gateway marker removes it.
\<close>

theorem C9_failed_requests_witness:
  "runPrediction None (FetchRejected ''Failed to fetch'')
      \<lparr>hexLayer = Some [Circle 23 75 50 (68, 68, 68) 0], status = StatusRendered 1\<rparr>
     = \<lparr>hexLayer = Some [Circle 23 75 50 (68, 68, 68) 0], status = StatusError ''Failed to fetch''\<rparr>
   \<and> loadInfrastructure_settled None (sample_state\<lparr>gatewaysLayer := [CircleMarker 1 2 7]\<rparr>)
     = sample_state"
proof -
  have f: "is_failure (FetchRejected ''Failed to fetch'')"
    by simp
  show ?thesis
    using C9_failed_requests [of "FetchRejected ''Failed to fetch''" None
        "\<lparr>hexLayer = Some [Circle 23 75 50 (68, 68, 68) 0], status = StatusRendered 1\<rparr>"
        "sample_state\<lparr>gatewaysLayer := [CircleMarker 1 2 7]\<rparr>"] f
    by (simp add: sample_state_def init_state_def)
qed

end
